theory Spec2Isabelle
  imports Complex_Main "HOL-Library.Word"
begin

section \<open>Values, exceptions and replies\<close>

text \<open>
  The gateway of \<^verbatim>\<open>main.py\<close> handles JSON-like Python values: what \<^verbatim>\<open>response.json()\<close>
  returns, what a handler returns, what a decoded token holds. \<open>JNull\<close> is Python's
  \<^verbatim>\<open>None\<close>, \<open>JObj\<close> a \<^verbatim>\<open>dict\<close> in insertion order, \<open>JArr\<close> a \<^verbatim>\<open>list\<close>. Strings are
  byte sequences in UTF-8, so an accented letter of a message is two characters.
  A \<open>JFloat\<close> stands for a finite float.
\<close>

datatype json =
    JNull
  | JBool bool
  | JInt int
  | JFloat real
  | JStr string
  | JArr "json list"
  | JObj "(string \<times> json) list"

text \<open>Python's truth value of such a value, as \<^verbatim>\<open>if x\<close> and \<^verbatim>\<open>x and y\<close> test it.\<close>

fun truthy :: "json \<Rightarrow> bool" where
  "truthy JNull = False"
| "truthy (JBool b) = b"
| "truthy (JInt n) = (n \<noteq> 0)"
| "truthy (JFloat r) = (r \<noteq> 0)"
| "truthy (JStr s) = (s \<noteq> [])"
| "truthy (JArr xs) = (xs \<noteq> [])"
| "truthy (JObj kvs) = (kvs \<noteq> [])"

text \<open>
  An exception carries the text \<^verbatim>\<open>str(e)\<close> gives. The handlers tell only
  \<^verbatim>\<open>httpx.TimeoutException\<close> from every other \<^verbatim>\<open>Exception\<close>.
\<close>

datatype exn = TimeoutException string | OtherException string

fun str :: "exn \<Rightarrow> string" where
  "str (TimeoutException m) = m"
| "str (OtherException m) = m"

text \<open>
  A request ends with a returned value, with a raised \<^verbatim>\<open>HTTPException(status_code, detail)\<close>,
  or with the framework's rejection of a request that lacks a declared parameter.
\<close>

datatype reply = Return json | HTTPException nat string | RequestValidationError


fun detail :: "reply \<Rightarrow> string" where
  "detail (Return v) = []"
| "detail (HTTPException c d) = d"
| "detail RequestValidationError = []"

text \<open>\<^verbatim>\<open>d.get(k)\<close> on a dict: the value, or \<^verbatim>\<open>None\<close> for a missing key.\<close>

definition dict_get :: "(string \<rightharpoonup> json) \<Rightarrow> string \<Rightarrow> json" where
  "dict_get d k = (case d k of None \<Rightarrow> JNull | Some v \<Rightarrow> v)"

section \<open>Configuration, outside world and server state\<close>

text \<open>The values read with \<^verbatim>\<open>os.getenv\<close>: \<open>None\<close> for a variable that is not set.\<close>

record config =
  N8N_SECRET_KEY :: "string option"
  HEYGEN_API_KEY :: "string option"
  BACKEND_PUBLIC_URL :: "string option"

text \<open>
  What an \<^verbatim>\<open>httpx\<close> response gives the handlers: \<open>status_error\<close> is the message of the
  error \<^verbatim>\<open>raise_for_status()\<close> raises (\<open>None\<close> when it passes), \<open>resp_text\<close> is
  \<^verbatim>\<open>response.text\<close>, \<open>json_body\<close> is the outcome of \<^verbatim>\<open>response.json()\<close> (\<open>Inl\<close> the
  message of the decoding error).
\<close>

record response =
  status_error :: "string option"
  resp_text :: string
  json_body :: "string + json"

type_synonym headers = "(string \<times> string option) list"

text \<open>
  The outside world during one request: the clock, the identity provider, the two
  HTTP services, the random identifier and Python's \<^verbatim>\<open>str()\<close> on a claim value.
  Each service is a function from what the handler sends to what comes back
  (\<open>Inl\<close> an exception raised by the call).
\<close>

record env =
  now :: real
  verify_id_token :: "string \<Rightarrow> exn + (string \<rightharpoonup> json)"
  client_get :: "string \<Rightarrow> headers \<Rightarrow> exn + response"
  client_post :: "string \<Rightarrow> (string \<times> json) list \<Rightarrow> real \<Rightarrow> exn + response"
  uuid4 :: string
  str_of :: "json \<Rightarrow> string"
  validate_str :: "json \<Rightarrow> string option"
  validate_int :: "json \<Rightarrow> int option"

text \<open>An outbound HTTP call made while a request is handled.\<close>

datatype call =
    HeygenGet string headers
  | N8nPost string "(string \<times> json) list" real

text \<open>
  The mutable state of the process: the two module-level cache dicts
  \<^verbatim>\<open>{"data": None, "timestamp": 0}\<close> and the files written under \<^verbatim>\<open>static/images\<close>.
\<close>

record cache =
  data :: json
  timestamp :: real

type_synonym bytes = "8 word list"

record state =
  voices_cache :: cache
  avatars_cache :: cache
  files :: "string \<rightharpoonup> bytes"

definition initial_state :: state where
  "initial_state =
     \<lparr>voices_cache = \<lparr>data = JNull, timestamp = 0\<rparr>,
      avatars_cache = \<lparr>data = JNull, timestamp = 0\<rparr>,
      files = Map.empty\<rparr>"

definition CACHE_DURATION_SECONDS :: real where
  "CACHE_DURATION_SECONDS = 3600"

definition HEYGEN_API_URL :: string where
  "HEYGEN_API_URL = ''https://api.heygen.com/v2''"

definition HEADERS :: "config \<Rightarrow> headers" where
  "HEADERS cfg = [(''accept'', Some ''application/json''), (''x-api-key'', HEYGEN_API_KEY cfg)]"

text \<open>The outcome of a handler: the reply, the state it leaves, the outbound calls it made.\<close>

type_synonym outcome = "reply \<times> state \<times> call list"

section \<open>Catalog proxy: \<^verbatim>\<open>get_voices\<close> and \<^verbatim>\<open>get_avatars\<close>\<close>

text \<open>
  The body of the \<^verbatim>\<open>try\<close> block: the GET, \<^verbatim>\<open>raise_for_status()\<close>, \<^verbatim>\<open>response.json()\<close>.
  Any of the three may raise; the handler's \<^verbatim>\<open>except Exception\<close> catches all of them.
\<close>

definition fetch_json :: "env \<Rightarrow> string \<Rightarrow> headers \<Rightarrow> exn + json" where
  "fetch_json e url hs =
     (case client_get e url hs of
        Inl ex \<Rightarrow> Inl ex
      | Inr r \<Rightarrow>
          (case status_error r of
             Some m \<Rightarrow> Inl (OtherException m)
           | None \<Rightarrow>
               (case json_body r of
                  Inl m \<Rightarrow> Inl (OtherException m)
                | Inr new_data \<Rightarrow> Inr new_data)))"

definition heygen_error_detail :: "exn \<Rightarrow> string" where
  "heygen_error_detail ex = ''Error al contactar la API de HeyGen: '' @ str ex"

definition get_voices :: "config \<Rightarrow> env \<Rightarrow> state \<Rightarrow> (string \<rightharpoonup> json) \<Rightarrow> outcome" where
  "get_voices cfg e st user_data =
     (let current_time = now e in
      if truthy (data (voices_cache st))
         \<and> current_time - timestamp (voices_cache st) < CACHE_DURATION_SECONDS
      then (Return (data (voices_cache st)), st, [])
      else
        (case fetch_json e (HEYGEN_API_URL @ ''/voices'') (HEADERS cfg) of
           Inr new_data \<Rightarrow>
             (Return new_data,
              st\<lparr>voices_cache := \<lparr>data = new_data, timestamp = current_time\<rparr>\<rparr>,
              [HeygenGet (HEYGEN_API_URL @ ''/voices'') (HEADERS cfg)])
         | Inl ex \<Rightarrow>
             (HTTPException 502 (heygen_error_detail ex), st,
              [HeygenGet (HEYGEN_API_URL @ ''/voices'') (HEADERS cfg)])))"

definition get_avatars :: "config \<Rightarrow> env \<Rightarrow> state \<Rightarrow> (string \<rightharpoonup> json) \<Rightarrow> outcome" where
  "get_avatars cfg e st user_data =
     (let current_time = now e in
      if truthy (data (avatars_cache st))
         \<and> current_time - timestamp (avatars_cache st) < CACHE_DURATION_SECONDS
      then (Return (data (avatars_cache st)), st, [])
      else
        (case fetch_json e (HEYGEN_API_URL @ ''/avatars'') (HEADERS cfg) of
           Inr new_data \<Rightarrow>
             (Return new_data,
              st\<lparr>avatars_cache := \<lparr>data = new_data, timestamp = current_time\<rparr>\<rparr>,
              [HeygenGet (HEYGEN_API_URL @ ''/avatars'') (HEADERS cfg)])
         | Inl ex \<Rightarrow>
             (HTTPException 502 (heygen_error_detail ex), st,
              [HeygenGet (HEYGEN_API_URL @ ''/avatars'') (HEADERS cfg)])))"

section \<open>Identity verification: \<^verbatim>\<open>security_scheme\<close> and \<^verbatim>\<open>get_current_user\<close>\<close>

text \<open>
  Modelled from the spec: \<^verbatim>\<open>security_scheme = HTTPBearer()\<close> is an object of the web
  framework, whose code is not part of the repository. The argument is the credential
  of an \<^verbatim>\<open>Authorization: Bearer\<close> header, \<open>None\<close> when the request has no such header.
  Following sections 4.2 and 7 of the spec, a missing credential is refused as
  Unauthorized (401) with a message, before \<^verbatim>\<open>get_current_user\<close> runs.
\<close>

definition security_scheme :: "string option \<Rightarrow> reply + string" where
  "security_scheme authorization =
     (case authorization of
        None \<Rightarrow> Inl (HTTPException 401 ''Not authenticated'')
      | Some credentials \<Rightarrow> Inr credentials)"

definition invalid_token_detail :: "exn \<Rightarrow> string" where
  "invalid_token_detail ex =
     ''Token de autorizaci'' @ [CHR 0xC3, CHR 0xB3] @ ''n inv'' @ [CHR 0xC3, CHR 0xA1]
       @ ''lido: '' @ str ex"

definition get_current_user :: "env \<Rightarrow> string \<Rightarrow> reply + (string \<rightharpoonup> json)" where
  "get_current_user e id_token =
     (case verify_id_token e id_token of
        Inr decoded_token \<Rightarrow> Inr decoded_token
      | Inl ex \<Rightarrow> Inl (HTTPException 401 (invalid_token_detail ex)))"

text \<open>\<^verbatim>\<open>Depends(get_current_user)\<close>, itself depending on \<^verbatim>\<open>security_scheme\<close>.\<close>

definition current_user :: "env \<Rightarrow> string option \<Rightarrow> reply + (string \<rightharpoonup> json)" where
  "current_user e authorization =
     (case security_scheme authorization of
        Inl r \<Rightarrow> Inl r
      | Inr token \<Rightarrow> get_current_user e token)"

section \<open>Shared-secret gate: \<^verbatim>\<open>verify_n8n_secret\<close>\<close>

definition verify_n8n_secret :: "config \<Rightarrow> string option \<Rightarrow> reply + bool" where
  "verify_n8n_secret cfg x_n8n_secret =
     (if N8N_SECRET_KEY cfg = None \<or> N8N_SECRET_KEY cfg = Some []
      then Inl (HTTPException 500
             (''La clave secreta del servidor no est'' @ [CHR 0xC3, CHR 0xA1] @ '' configurada.''))
      else if x_n8n_secret \<noteq> N8N_SECRET_KEY cfg
      then Inl (HTTPException 403
             (''Acceso denegado: Clave secreta inv'' @ [CHR 0xC3, CHR 0xA1] @ ''lida.''))
      else Inr True)"

section \<open>Automation proxy: \<^verbatim>\<open>N8NBody\<close> and \<^verbatim>\<open>proxy_to_n8n\<close>\<close>

record N8NBody =
  message :: string
  botId :: string
  avatarId :: "string option"
  voiceId :: "string option"
  videoWidth :: "int option"
  videoHeight :: "int option"
  type :: string

text \<open>
  The request body validated against the fields \<^verbatim>\<open>N8NBody\<close> declares. How one value
  is accepted as a \<^verbatim>\<open>str\<close> or an \<^verbatim>\<open>int\<close> is the validation library's business
  (\<open>validate_str\<close>, \<open>validate_int\<close>); which keys are read is the class's: three
  required fields, four that default to \<^verbatim>\<open>None\<close>, and no other key.
\<close>

definition required :: "(json \<Rightarrow> 'a option) \<Rightarrow> (string \<rightharpoonup> json) \<Rightarrow> string \<Rightarrow> 'a option" where
  "required v raw k = (case raw k of None \<Rightarrow> None | Some x \<Rightarrow> v x)"

definition optional :: "(json \<Rightarrow> 'a option) \<Rightarrow> (string \<rightharpoonup> json) \<Rightarrow> string \<Rightarrow> 'a option option" where
  "optional v raw k =
     (case raw k of
        None \<Rightarrow> Some None
      | Some JNull \<Rightarrow> Some None
      | Some x \<Rightarrow> (case v x of None \<Rightarrow> None | Some y \<Rightarrow> Some (Some y)))"

definition parse_N8NBody :: "env \<Rightarrow> (string \<rightharpoonup> json) \<Rightarrow> N8NBody option" where
  "parse_N8NBody e raw =
     Option.bind (required (validate_str e) raw ''message'') (\<lambda>m.
     Option.bind (required (validate_str e) raw ''botId'') (\<lambda>b.
     Option.bind (optional (validate_str e) raw ''avatarId'') (\<lambda>a.
     Option.bind (optional (validate_str e) raw ''voiceId'') (\<lambda>v.
     Option.bind (optional (validate_int e) raw ''videoWidth'') (\<lambda>w.
     Option.bind (optional (validate_int e) raw ''videoHeight'') (\<lambda>h.
     Option.bind (required (validate_str e) raw ''type'') (\<lambda>t.
       Some \<lparr>message = m, botId = b, avatarId = a, voiceId = v,
             videoWidth = w, videoHeight = h, type = t\<rparr>)))))))"

definition opt_str :: "string option \<Rightarrow> json" where
  "opt_str x = (case x of None \<Rightarrow> JNull | Some s \<Rightarrow> JStr s)"

definition opt_int :: "int option \<Rightarrow> json" where
  "opt_int x = (case x of None \<Rightarrow> JNull | Some n \<Rightarrow> JInt n)"

text \<open>\<^verbatim>\<open>body.dict()\<close>: the declared fields in their order.\<close>

definition dict :: "N8NBody \<Rightarrow> (string \<times> json) list" where
  "dict body =
     [(''message'', JStr (message body)),
      (''botId'', JStr (botId body)),
      (''avatarId'', opt_str (avatarId body)),
      (''voiceId'', opt_str (voiceId body)),
      (''videoWidth'', opt_int (videoWidth body)),
      (''videoHeight'', opt_int (videoHeight body)),
      (''type'', JStr (type body))]"

text \<open>\<^verbatim>\<open>d[k] = v\<close> on a dict: an existing key keeps its place, a new one goes last.\<close>

fun setitem :: "(string \<times> json) list \<Rightarrow> string \<Rightarrow> json \<Rightarrow> (string \<times> json) list" where
  "setitem [] k v = [(k, v)]"
| "setitem ((k', v') # d) k v = (if k' = k then (k, v) # d else (k', v') # setitem d k v)"

definition n8n_webhook_url :: string where
  "n8n_webhook_url =
     ''https://automation.luminotest.com/webhook/53816d93-2be0-4df2-8dec-031847e0bed1''"

definition n8n_payload :: "N8NBody \<Rightarrow> (string \<rightharpoonup> json) \<Rightarrow> (string \<times> json) list" where
  "n8n_payload body user_data = setitem (dict body) ''uid'' (dict_get user_data ''uid'')"

definition n8n_timeout_detail :: string where
  "n8n_timeout_detail =
     ''Timeout: n8n tard'' @ [CHR 0xC3, CHR 0xB3] @ '' demasiado en responder.''"

definition n8n_error_detail :: "string \<Rightarrow> string" where
  "n8n_error_detail m = ''Error al contactar n8n: '' @ m"

definition proxy_to_n8n :: "env \<Rightarrow> state \<Rightarrow> N8NBody \<Rightarrow> (string \<rightharpoonup> json) \<Rightarrow> outcome" where
  "proxy_to_n8n e st body user_data =
     (let payload = n8n_payload body user_data;
          sent = [N8nPost n8n_webhook_url payload 60]
      in case client_post e n8n_webhook_url payload 60 of
           Inl (TimeoutException m) \<Rightarrow> (HTTPException 504 n8n_timeout_detail, st, sent)
         | Inl (OtherException m) \<Rightarrow> (HTTPException 502 (n8n_error_detail m), st, sent)
         | Inr n8n_response \<Rightarrow>
             (case status_error n8n_response of
                Some m \<Rightarrow> (HTTPException 502 (n8n_error_detail m), st, sent)
              | None \<Rightarrow> (Return (JStr (resp_text n8n_response)), st, sent)))"

definition api_n8n :: "env \<Rightarrow> state \<Rightarrow> string option \<Rightarrow> (string \<rightharpoonup> json) \<Rightarrow> outcome" where
  "api_n8n e st authorization raw =
     (case current_user e authorization of
        Inl r \<Rightarrow> (r, st, [])
      | Inr user_data \<Rightarrow>
          (case parse_N8NBody e raw of
             None \<Rightarrow> (RequestValidationError, st, [])
           | Some body \<Rightarrow> proxy_to_n8n e st body user_data))"

section \<open>Upload receiver: \<^verbatim>\<open>upload_image_from_n8n\<close>\<close>

text \<open>
  \<^verbatim>\<open>os.path.splitext\<close> on a POSIX path: the extension starts at the last dot, when that
  dot comes after the last slash and some character between the two is not a dot.
  \<open>rfind\<close> is \<^verbatim>\<open>str.rfind\<close> of one character: the last index, or \<open>-1\<close>.
\<close>

fun rfind_from :: "string \<Rightarrow> char \<Rightarrow> int \<Rightarrow> int \<Rightarrow> int" where
  "rfind_from [] c i found = found"
| "rfind_from (x # xs) c i found = rfind_from xs c (i + 1) (if x = c then i else found)"

definition rfind :: "string \<Rightarrow> char \<Rightarrow> int" where
  "rfind p c = rfind_from p c 0 (- 1)"

function splitext_loop :: "string \<Rightarrow> int \<Rightarrow> int \<Rightarrow> string \<times> string" where
  "splitext_loop p filenameIndex dotIndex =
     (if filenameIndex < dotIndex
      then (if [p ! nat filenameIndex] \<noteq> ''.''
            then (take (nat dotIndex) p, drop (nat dotIndex) p)
            else splitext_loop p (filenameIndex + 1) dotIndex)
      else (p, []))"
  by pat_completeness auto
termination
  by (relation "measure (\<lambda>(p, filenameIndex, dotIndex). nat (dotIndex - filenameIndex))") auto

declare splitext_loop.simps [simp del]

definition splitext :: "string \<Rightarrow> string \<times> string" where
  "splitext p =
     (let sepIndex = rfind p CHR ''/'';
          dotIndex = rfind p CHR ''.''
      in if dotIndex > sepIndex then splitext_loop p (sepIndex + 1) dotIndex else (p, []))"

record UploadFile =
  filename :: string
  content :: bytes

definition public_base_url :: "config \<Rightarrow> string" where
  "public_base_url cfg =
     (case BACKEND_PUBLIC_URL cfg of None \<Rightarrow> ''http://localhost:8000'' | Some u \<Rightarrow> u)"

definition upload_image_from_n8n :: "config \<Rightarrow> env \<Rightarrow> state \<Rightarrow> string \<Rightarrow> UploadFile \<Rightarrow> outcome" where
  "upload_image_from_n8n cfg e st uid image_file =
     (let file_extension = snd (splitext (filename image_file));
          unique_filename = uuid4 e @ file_extension;
          file_path = ''static/images/'' @ unique_filename;
          st' = st\<lparr>files := (files st)(file_path \<mapsto> content image_file)\<rparr>;
          base_url = public_base_url cfg;
          full_image_url = base_url @ ''/'' @ file_path
      in (Return (JObj [(''imageUrl'', JStr full_image_url)]), st', []))"

text \<open>
  The request as the framework hands it over: the \<^verbatim>\<open>x-n8n-secret\<close> header and the two
  form fields, each \<open>None\<close> when the request lacks it. The dependency
  \<^verbatim>\<open>verify_n8n_secret\<close> runs first; the form fields are required after it.
\<close>

record upload_request =
  x_n8n_secret :: "string option"
  form_uid :: "string option"
  form_image_file :: "UploadFile option"

definition api_upload_image :: "config \<Rightarrow> env \<Rightarrow> state \<Rightarrow> upload_request \<Rightarrow> outcome" where
  "api_upload_image cfg e st req =
     (case verify_n8n_secret cfg (x_n8n_secret req) of
        Inl r \<Rightarrow> (r, st, [])
      | Inr is_secret_valid \<Rightarrow>
          (case form_uid req of
             None \<Rightarrow> (RequestValidationError, st, [])
           | Some uid \<Rightarrow>
               (case form_image_file req of
                  None \<Rightarrow> (RequestValidationError, st, [])
                | Some image_file \<Rightarrow> upload_image_from_n8n cfg e st uid image_file)))"

section \<open>The bearer-protected endpoints\<close>

definition get_my_info :: "env \<Rightarrow> state \<Rightarrow> (string \<rightharpoonup> json) \<Rightarrow> outcome" where
  "get_my_info e st user_data =
     (let uid = dict_get user_data ''uid'';
          email = dict_get user_data ''email''
      in (Return (JObj [(''message'',
            JStr ([CHR 0xC2, CHR 0xA1] @ ''Hola, '' @ str_of e email
                  @ ''! Tu UID de Firebase es: '' @ str_of e uid))]),
          st, []))"

definition api_me :: "env \<Rightarrow> state \<Rightarrow> string option \<Rightarrow> outcome" where
  "api_me e st authorization =
     (case current_user e authorization of
        Inl r \<Rightarrow> (r, st, [])
      | Inr user_data \<Rightarrow> get_my_info e st user_data)"

definition api_voices :: "config \<Rightarrow> env \<Rightarrow> state \<Rightarrow> string option \<Rightarrow> outcome" where
  "api_voices cfg e st authorization =
     (case current_user e authorization of
        Inl r \<Rightarrow> (r, st, [])
      | Inr user_data \<Rightarrow> get_voices cfg e st user_data)"

definition api_avatars :: "config \<Rightarrow> env \<Rightarrow> state \<Rightarrow> string option \<Rightarrow> outcome" where
  "api_avatars cfg e st authorization =
     (case current_user e authorization of
        Inl r \<Rightarrow> (r, st, [])
      | Inr user_data \<Rightarrow> get_avatars cfg e st user_data)"

section \<open>A concrete deployment, for evaluating the handlers\<close>

definition example_cfg :: config where
  "example_cfg =
     \<lparr>N8N_SECRET_KEY = Some ''s3cret'', HEYGEN_API_KEY = Some ''key-1'',
      BACKEND_PUBLIC_URL = Some ''https://api.example.com''\<rparr>"

definition example_catalog :: json where
  "example_catalog = JObj [(''data'', JArr [JStr ''voice-1'', JStr ''voice-2''])]"

definition example_claims :: "string \<Rightarrow> (string \<rightharpoonup> json)" where
  "example_claims who = [''uid'' \<mapsto> JStr who, ''email'' \<mapsto> JStr (who @ ''@example.com'')]"

text \<open>
  A world at time \<open>t\<close> in which the provider accepts the tokens of two users, the
  catalog API answers \<open>upstream\<close> and the webhook answers \<open>hook\<close>.
\<close>

definition example_env :: "real \<Rightarrow> (exn + response) \<Rightarrow> (exn + response) \<Rightarrow> env" where
  "example_env t upstream hook =
     \<lparr>now = t,
      verify_id_token = (\<lambda>tok.
        if tok = ''token-alice'' then Inr (example_claims ''alice'')
        else if tok = ''token-bob'' then Inr (example_claims ''bob'')
        else Inl (OtherException ''Wrong number of segments in token'')),
      client_get = (\<lambda>url hs. upstream),
      client_post = (\<lambda>url payload timeout. hook),
      uuid4 = ''0b0e7a2c-5d1f-4c3a-9e6b-7f8a9b0c1d2e'',
      str_of = (\<lambda>v. case v of JStr x \<Rightarrow> x | _ \<Rightarrow> ''None''),
      validate_str = (\<lambda>v. case v of JStr x \<Rightarrow> Some x | _ \<Rightarrow> None),
      validate_int = (\<lambda>v. case v of JInt n \<Rightarrow> Some n | _ \<Rightarrow> None)\<rparr>"

definition ok_response :: "string \<Rightarrow> json \<Rightarrow> exn + response" where
  "ok_response body v = Inr \<lparr>status_error = None, resp_text = body, json_body = Inr v\<rparr>"

definition cached_state :: "json \<Rightarrow> real \<Rightarrow> state" where
  "cached_state payload fetched_at =
     initial_state\<lparr>voices_cache := \<lparr>data = payload, timestamp = fetched_at\<rparr>\<rparr>"

definition example_body :: "string \<rightharpoonup> json" where
  "example_body = [''message'' \<mapsto> JStr ''hi'', ''botId'' \<mapsto> JStr ''b1'', ''type'' \<mapsto> JStr ''chat'']"

definition example_upload :: "string option \<Rightarrow> upload_request" where
  "example_upload secret =
     \<lparr>x_n8n_secret = secret, form_uid = Some ''alice'',
      form_image_file = Some \<lparr>filename = ''photo.png'', content = [137, 80, 78, 71]\<rparr>\<rparr>"

section \<open>Helper facts\<close>

lemmas catalog_defs = api_voices_def api_avatars_def get_voices_def get_avatars_def

lemmas auth_defs = current_user_def security_scheme_def get_current_user_def

lemmas example_defs = example_env_def example_cfg_def example_claims_def ok_response_def
  cached_state_def initial_state_def example_body_def example_upload_def example_catalog_def

lemmas constant_defs = CACHE_DURATION_SECONDS_def HEYGEN_API_URL_def HEADERS_def
  n8n_webhook_url_def heygen_error_detail_def n8n_error_detail_def

lemma alice_verified:
  "current_user (example_env t upstream hook) (Some ''token-alice'') = Inr (example_claims ''alice'')"
  by (simp add: auth_defs example_env_def)

lemma bob_verified:
  "current_user (example_env t upstream hook) (Some ''token-bob'') = Inr (example_claims ''bob'')"
  by (simp add: auth_defs example_env_def)

lemma example_fetch_ok:
  "fetch_json (example_env t (ok_response body v) hook) url hs = Inr v"
  by (simp add: fetch_json_def example_env_def ok_response_def)

lemma example_fetch_raises:
  "fetch_json (example_env t (Inl ex) hook) url hs = Inl ex"
  by (simp add: fetch_json_def example_env_def)

lemma example_body_parsed:
  "parse_N8NBody (example_env t upstream hook) example_body
     = Some \<lparr>message = ''hi'', botId = ''b1'', avatarId = None, voiceId = None,
             videoWidth = None, videoHeight = None, type = ''chat''\<rparr>"
  by (simp add: parse_N8NBody_def required_def optional_def example_body_def example_env_def)

section \<open>The read-through cache of the catalog endpoints\<close>

text \<open>
  Claim C1, as the code has it. For a catalog request by a verified user: when the
  stored payload is falsy (\<^verbatim>\<open>None\<close> or an empty or zero value) or
  \<open>now - fetchedAt \<ge> 3600\<close>, the handler calls the catalog API, and when that call
  succeeds it stores the result with \<open>fetchedAt = now\<close> and returns it; when the stored
  payload is truthy and \<open>now - fetchedAt < 3600\<close>, it returns the stored payload, leaves
  the state as it is and calls nothing. In particular a truthy entry fetched at \<open>T\<close>
  is served from the cache at \<open>T + 3599\<close> and fetched again at \<open>T + 3601\<close>.
\<close>

theorem catalog_read_through:
  assumes "current_user e authorization = Inr user_data"
  shows
   "((\<not> truthy (data (voices_cache st)) \<or> now e - timestamp (voices_cache st) \<ge> 3600)
     \<longrightarrow> snd (snd (api_voices cfg e st authorization))
           = [HeygenGet (HEYGEN_API_URL @ ''/voices'') (HEADERS cfg)]
         \<and> (\<forall>v. fetch_json e (HEYGEN_API_URL @ ''/voices'') (HEADERS cfg) = Inr v
              \<longrightarrow> api_voices cfg e st authorization
                   = (Return v, st\<lparr>voices_cache := \<lparr>data = v, timestamp = now e\<rparr>\<rparr>,
                      [HeygenGet (HEYGEN_API_URL @ ''/voices'') (HEADERS cfg)])))
    \<and> (truthy (data (voices_cache st)) \<and> now e - timestamp (voices_cache st) < 3600
     \<longrightarrow> api_voices cfg e st authorization = (Return (data (voices_cache st)), st, []))
    \<and> ((\<not> truthy (data (avatars_cache st)) \<or> now e - timestamp (avatars_cache st) \<ge> 3600)
     \<longrightarrow> snd (snd (api_avatars cfg e st authorization))
           = [HeygenGet (HEYGEN_API_URL @ ''/avatars'') (HEADERS cfg)]
         \<and> (\<forall>v. fetch_json e (HEYGEN_API_URL @ ''/avatars'') (HEADERS cfg) = Inr v
              \<longrightarrow> api_avatars cfg e st authorization
                   = (Return v, st\<lparr>avatars_cache := \<lparr>data = v, timestamp = now e\<rparr>\<rparr>,
                      [HeygenGet (HEYGEN_API_URL @ ''/avatars'') (HEADERS cfg)])))
    \<and> (truthy (data (avatars_cache st)) \<and> now e - timestamp (avatars_cache st) < 3600
     \<longrightarrow> api_avatars cfg e st authorization = (Return (data (avatars_cache st)), st, []))
    \<and> (truthy (data (voices_cache st)) \<and> now e = timestamp (voices_cache st) + 3599
     \<longrightarrow> api_voices cfg e st authorization = (Return (data (voices_cache st)), st, []))
    \<and> (now e = timestamp (voices_cache st) + 3601
     \<longrightarrow> snd (snd (api_voices cfg e st authorization))
           = [HeygenGet (HEYGEN_API_URL @ ''/voices'') (HEADERS cfg)])
    \<and> (truthy (data (avatars_cache st)) \<and> now e = timestamp (avatars_cache st) + 3599
     \<longrightarrow> api_avatars cfg e st authorization = (Return (data (avatars_cache st)), st, []))
    \<and> (now e = timestamp (avatars_cache st) + 3601
     \<longrightarrow> snd (snd (api_avatars cfg e st authorization))
           = [HeygenGet (HEYGEN_API_URL @ ''/avatars'') (HEADERS cfg)])"
  using assms
  by (auto simp add: catalog_defs CACHE_DURATION_SECONDS_def Let_def split: sum.splits)

text \<open>
  Witness of C1 as amended: a catalog fetched at time 1000 is served from the cache
  at 4599, and at 4601 the handler fetches and stores the new catalog.
\<close>

theorem catalog_read_through_witness:
  "current_user (example_env 4599 (ok_response [] (JObj [(''data'', JArr [])])) (Inl (OtherException [])))
     (Some ''token-alice'') = Inr (example_claims ''alice'')
   \<and> api_voices example_cfg
       (example_env 4599 (ok_response [] (JObj [(''data'', JArr [])])) (Inl (OtherException [])))
       (cached_state example_catalog 1000) (Some ''token-alice'')
      = (Return example_catalog, cached_state example_catalog 1000, [])
   \<and> api_voices example_cfg
       (example_env 4601 (ok_response [] (JObj [(''data'', JArr [])])) (Inl (OtherException [])))
       (cached_state example_catalog 1000) (Some ''token-alice'')
      = (Return (JObj [(''data'', JArr [])]),
         cached_state (JObj [(''data'', JArr [])]) 4601,
         [HeygenGet ''https://api.heygen.com/v2/voices''
            [(''accept'', Some ''application/json''), (''x-api-key'', Some ''key-1'')]])"
proof -
  let ?new = "JObj [(''data'', JArr [])]"
  let ?hit = "example_env 4599 (ok_response [] ?new) (Inl (OtherException []))"
  let ?miss = "example_env 4601 (ok_response [] ?new) (Inl (OtherException []))"
  let ?st = "cached_state example_catalog 1000"
  have a: "current_user ?hit (Some ''token-alice'') = Inr (example_claims ''alice'')"
    by (rule alice_verified)
  have b: "current_user ?miss (Some ''token-alice'') = Inr (example_claims ''alice'')"
    by (rule alice_verified)
  have fresh: "truthy (data (voices_cache ?st)) \<and> now ?hit - timestamp (voices_cache ?st) < 3600"
    by (simp add: example_defs)
  have stale: "now ?miss - timestamp (voices_cache ?st) \<ge> 3600"
    by (simp add: example_defs)
  have fetched: "fetch_json ?miss (HEYGEN_API_URL @ ''/voices'') (HEADERS example_cfg) = Inr ?new"
    by (rule example_fetch_ok)
  from catalog_read_through [OF a, of ?st example_cfg] fresh
  have hit: "api_voices example_cfg ?hit ?st (Some ''token-alice'')
               = (Return (data (voices_cache ?st)), ?st, [])"
    by blast
  from catalog_read_through [OF b, of ?st example_cfg] stale fetched
  have miss: "api_voices example_cfg ?miss ?st (Some ''token-alice'')
               = (Return ?new, ?st\<lparr>voices_cache := \<lparr>data = ?new, timestamp = now ?miss\<rparr>\<rparr>,
                  [HeygenGet (HEYGEN_API_URL @ ''/voices'') (HEADERS example_cfg)])"
    by blast
  show ?thesis
    by (simp add: a hit miss) (simp add: example_defs constant_defs)
qed

text \<open>
  Counterexample to C1 as stated: the catalog API answered the empty object \<^verbatim>\<open>{}\<close> at
  time 1000 and the handler stored it, so a payload exists and at time 1010 its age
  is under 3600 seconds; the handler calls the catalog API all the same and replaces
  the entry.
\<close>

theorem catalog_read_through_counterexample:
  "fst (snd (api_voices example_cfg
        (example_env 1000 (ok_response [] (JObj [])) (Inl (OtherException [])))
        initial_state (Some ''token-alice''))) = cached_state (JObj []) 1000
   \<and> data (voices_cache (cached_state (JObj []) 1000)) \<noteq> JNull
   \<and> now (example_env 1010 (ok_response [] example_catalog) (Inl (OtherException [])))
       - timestamp (voices_cache (cached_state (JObj []) 1000)) < 3600
   \<and> current_user (example_env 1010 (ok_response [] example_catalog) (Inl (OtherException [])))
        (Some ''token-alice'') = Inr (example_claims ''alice'')
   \<and> api_voices example_cfg
        (example_env 1010 (ok_response [] example_catalog) (Inl (OtherException [])))
        (cached_state (JObj []) 1000) (Some ''token-alice'')
       \<noteq> (Return (data (voices_cache (cached_state (JObj []) 1000))),
           cached_state (JObj []) 1000, [])
   \<and> api_voices example_cfg
        (example_env 1010 (ok_response [] example_catalog) (Inl (OtherException [])))
        (cached_state (JObj []) 1000) (Some ''token-alice'')
       = (Return example_catalog,
          cached_state example_catalog 1010,
          [HeygenGet ''https://api.heygen.com/v2/voices''
             [(''accept'', Some ''application/json''), (''x-api-key'', Some ''key-1'')]])"
  by (simp add: catalog_defs auth_defs example_defs constant_defs fetch_json_def)

text \<open>
  Claim C2. For a catalog request by a verified user that reaches the catalog API
  (the stored payload is falsy or an hour old): when the call raises (a network
  error), or \<^verbatim>\<open>raise_for_status()\<close> raises (a non-success status), or
  \<^verbatim>\<open>response.json()\<close> raises (an unparsable body), the reply is 502 with the text of
  the error after a fixed prefix, and the whole state, so the cache entry with its
  payload and its timestamp, is what it was before the request.
\<close>

theorem failed_fetch_keeps_cache:
  assumes "current_user e authorization = Inr user_data"
  shows
   "(\<forall>ex. \<not> (truthy (data (voices_cache st)) \<and> now e - timestamp (voices_cache st) < 3600)
         \<and> (client_get e (HEYGEN_API_URL @ ''/voices'') (HEADERS cfg) = Inl ex
            \<or> (\<exists>r m. client_get e (HEYGEN_API_URL @ ''/voices'') (HEADERS cfg) = Inr r
                  \<and> ex = OtherException m
                  \<and> (status_error r = Some m \<or> status_error r = None \<and> json_body r = Inl m)))
     \<longrightarrow> api_voices cfg e st authorization
          = (HTTPException 502 (''Error al contactar la API de HeyGen: '' @ str ex), st,
             [HeygenGet (HEYGEN_API_URL @ ''/voices'') (HEADERS cfg)]))
    \<and> (\<forall>ex. \<not> (truthy (data (avatars_cache st)) \<and> now e - timestamp (avatars_cache st) < 3600)
         \<and> (client_get e (HEYGEN_API_URL @ ''/avatars'') (HEADERS cfg) = Inl ex
            \<or> (\<exists>r m. client_get e (HEYGEN_API_URL @ ''/avatars'') (HEADERS cfg) = Inr r
                  \<and> ex = OtherException m
                  \<and> (status_error r = Some m \<or> status_error r = None \<and> json_body r = Inl m)))
     \<longrightarrow> api_avatars cfg e st authorization
          = (HTTPException 502 (''Error al contactar la API de HeyGen: '' @ str ex), st,
             [HeygenGet (HEYGEN_API_URL @ ''/avatars'') (HEADERS cfg)]))"
  using assms
  by (auto simp add: catalog_defs CACHE_DURATION_SECONDS_def Let_def heygen_error_detail_def
        fetch_json_def)

text \<open>
  Witness of C2: with nothing cached, and with a catalog cached 4000 seconds earlier,
  a refused connection gives 502 and leaves the state as it was.
\<close>

theorem failed_fetch_keeps_cache_witness:
  "api_avatars example_cfg
      (example_env 5000 (Inl (OtherException ''Connection refused'')) (Inl (OtherException [])))
      initial_state (Some ''token-alice'')
     = (HTTPException 502 ''Error al contactar la API de HeyGen: Connection refused'',
        initial_state,
        [HeygenGet ''https://api.heygen.com/v2/avatars''
           [(''accept'', Some ''application/json''), (''x-api-key'', Some ''key-1'')]])
   \<and> api_voices example_cfg
      (example_env 5000 (Inl (OtherException ''Connection refused'')) (Inl (OtherException [])))
      (cached_state example_catalog 1000) (Some ''token-alice'')
     = (HTTPException 502 ''Error al contactar la API de HeyGen: Connection refused'',
        cached_state example_catalog 1000,
        [HeygenGet ''https://api.heygen.com/v2/voices''
           [(''accept'', Some ''application/json''), (''x-api-key'', Some ''key-1'')]])"
proof -
  let ?ex = "OtherException ''Connection refused''"
  let ?e = "example_env 5000 (Inl ?ex) (Inl (OtherException []))"
  let ?st = "cached_state example_catalog 1000"
  have a: "current_user ?e (Some ''token-alice'') = Inr (example_claims ''alice'')"
    by (rule alice_verified)
  have absent: "\<not> (truthy (data (avatars_cache initial_state))
                  \<and> now ?e - timestamp (avatars_cache initial_state) < 3600)"
    by (simp add: example_defs)
  have stale: "\<not> (truthy (data (voices_cache ?st)) \<and> now ?e - timestamp (voices_cache ?st) < 3600)"
    by (simp add: example_defs)
  have down: "client_get ?e url hs = Inl ?ex" for url hs
    by (simp add: example_env_def)
  from failed_fetch_keeps_cache [OF a, of initial_state example_cfg] absent down
  have av: "api_avatars example_cfg ?e initial_state (Some ''token-alice'')
          = (HTTPException 502 (''Error al contactar la API de HeyGen: '' @ str ?ex), initial_state,
             [HeygenGet (HEYGEN_API_URL @ ''/avatars'') (HEADERS example_cfg)])"
    by blast
  from failed_fetch_keeps_cache [OF a, of ?st example_cfg] stale down
  have vo: "api_voices example_cfg ?e ?st (Some ''token-alice'')
          = (HTTPException 502 (''Error al contactar la API de HeyGen: '' @ str ?ex), ?st,
             [HeygenGet (HEYGEN_API_URL @ ''/voices'') (HEADERS example_cfg)])"
    by blast
  show ?thesis
    by (simp add: av vo) (simp add: example_defs constant_defs)
qed

section \<open>The two gates\<close>





section \<open>The automation proxy\<close>

lemma setitem_fresh: "k \<notin> fst ` set d \<Longrightarrow> setitem d k v = d @ [(k, v)]"
  by (induction d k v rule: setitem.induct) auto

lemma n8n_payload_eq:
  "n8n_payload body user_data = dict body @ [(''uid'', dict_get user_data ''uid'')]"
proof -
  have "''uid'' \<notin> fst ` set (dict body)"
    by (simp add: dict_def)
  then show ?thesis
    by (simp add: n8n_payload_def setitem_fresh)
qed

lemma proxy_to_n8n_calls:
  "snd (snd (proxy_to_n8n e st body user_data))
     = [N8nPost n8n_webhook_url (n8n_payload body user_data) 60]"
  by (simp add: proxy_to_n8n_def Let_def split: sum.splits exn.splits option.splits)

lemma parse_ignores_uid: "parse_N8NBody e (raw(''uid'' := x)) = parse_N8NBody e raw"
  by (simp add: parse_N8NBody_def required_def optional_def)

text \<open>
  Claim C5. For every authenticated POST /api/n8n request with a valid body, exactly
  one call goes to the webhook; its payload is the declared fields of the body
  followed by \<open>uid\<close>, whose value is \<^verbatim>\<open>user_data.get("uid")\<close> of the decoded token, and
  no other \<open>uid\<close> entry; whatever the client put under \<open>uid\<close> in the request body, or
  whether it put anything, changes nothing in the outcome.
\<close>

theorem n8n_uid_from_token:
  assumes "current_user e authorization = Inr user_data"
      and "parse_N8NBody e raw = Some body"
  shows "snd (snd (api_n8n e st authorization raw))
           = [N8nPost n8n_webhook_url (dict body @ [(''uid'', dict_get user_data ''uid'')]) 60]
         \<and> map_of (n8n_payload body user_data) ''uid'' = Some (dict_get user_data ''uid'')
         \<and> [kv \<leftarrow> n8n_payload body user_data. fst kv = ''uid'']
             = [(''uid'', dict_get user_data ''uid'')]
         \<and> (\<forall>x. api_n8n e st authorization (raw(''uid'' := x)) = api_n8n e st authorization raw)"
proof -
  from assms have "snd (snd (api_n8n e st authorization raw))
           = [N8nPost n8n_webhook_url (dict body @ [(''uid'', dict_get user_data ''uid'')]) 60]"
    by (simp add: api_n8n_def proxy_to_n8n_calls n8n_payload_eq)
  moreover have "map_of (n8n_payload body user_data) ''uid'' = Some (dict_get user_data ''uid'')"
    by (simp add: n8n_payload_eq dict_def)
  moreover have "[kv \<leftarrow> n8n_payload body user_data. fst kv = ''uid'']
             = [(''uid'', dict_get user_data ''uid'')]"
    by (simp add: n8n_payload_eq dict_def)
  moreover have "\<forall>x. api_n8n e st authorization (raw(''uid'' := x)) = api_n8n e st authorization raw"
    by (simp add: api_n8n_def parse_ignores_uid split: sum.splits)
  ultimately show ?thesis by blast
qed

text \<open>
  Witness of C5: Alice's request, with \<open>uid\<close> set to another user's id in the body,
  reaches the webhook with \<open>uid\<close> set to Alice's.
\<close>

theorem n8n_uid_from_token_witness:
  "api_n8n (example_env 0 (Inl (OtherException [])) (ok_response ''done'' JNull))
      initial_state (Some ''token-alice'') (example_body(''uid'' \<mapsto> JStr ''bob''))
    = (Return (JStr ''done''), initial_state,
       [N8nPost ''https://automation.luminotest.com/webhook/53816d93-2be0-4df2-8dec-031847e0bed1''
          [(''message'', JStr ''hi''), (''botId'', JStr ''b1''), (''avatarId'', JNull),
           (''voiceId'', JNull), (''videoWidth'', JNull), (''videoHeight'', JNull),
           (''type'', JStr ''chat''), (''uid'', JStr ''alice'')] 60])"
proof -
  let ?e = "example_env 0 (Inl (OtherException [])) (ok_response ''done'' JNull)"
  let ?body = "\<lparr>message = ''hi'', botId = ''b1'', avatarId = None, voiceId = None,
             videoWidth = None, videoHeight = None, type = ''chat''\<rparr>"
  have a: "current_user ?e (Some ''token-alice'') = Inr (example_claims ''alice'')"
    by (rule alice_verified)
  have b: "parse_N8NBody ?e example_body = Some ?body"
    by (rule example_body_parsed)
  from n8n_uid_from_token [OF a b, of initial_state]
  have calls: "snd (snd (api_n8n ?e initial_state (Some ''token-alice'') example_body))
           = [N8nPost n8n_webhook_url
                (dict ?body @ [(''uid'', dict_get (example_claims ''alice'') ''uid'')]) 60]"
    and same: "api_n8n ?e initial_state (Some ''token-alice'') (example_body(''uid'' \<mapsto> JStr ''bob''))
           = api_n8n ?e initial_state (Some ''token-alice'') example_body"
    by blast+
  have rest: "fst (api_n8n ?e initial_state (Some ''token-alice'') example_body) = Return (JStr ''done'')
      \<and> fst (snd (api_n8n ?e initial_state (Some ''token-alice'') example_body)) = initial_state"
    by (simp add: api_n8n_def a b proxy_to_n8n_def Let_def)
       (simp add: example_env_def ok_response_def)
  have "api_n8n ?e initial_state (Some ''token-alice'') example_body
     = (Return (JStr ''done''), initial_state,
        [N8nPost n8n_webhook_url
           (dict ?body @ [(''uid'', dict_get (example_claims ''alice'') ''uid'')]) 60])"
    using calls rest by (cases "api_n8n ?e initial_state (Some ''token-alice'') example_body") simp
  then show ?thesis
    by (simp add: same) (simp add: dict_def opt_str_def opt_int_def dict_get_def
          example_claims_def n8n_webhook_url_def)
qed



section \<open>The upload receiver\<close>










section \<open>Identity and the cache\<close>

text \<open>
  Claim C8. Two requests to the same catalog endpoint, against the same state and in
  the same world (the same clock, the same upstream answer), by any two verified
  identities, have the same outcome: the same reply, the same resulting state, the
  same outbound calls. The decoded claims are only required to exist.
\<close>

theorem catalog_identity_blind:
  assumes "current_user e authorization = Inr user_data"
      and "current_user e authorization' = Inr user_data'"
  shows "api_voices cfg e st authorization = api_voices cfg e st authorization'
       \<and> api_avatars cfg e st authorization = api_avatars cfg e st authorization'"
  using assms by (simp add: catalog_defs)

text \<open>Witness of C8: Alice and Bob, on a fresh cache, get the same outcome.\<close>

theorem catalog_identity_blind_witness:
  "current_user (example_env 1500 (ok_response [] JNull) (Inl (OtherException [])))
      (Some ''token-alice'') = Inr (example_claims ''alice'')
   \<and> current_user (example_env 1500 (ok_response [] JNull) (Inl (OtherException [])))
      (Some ''token-bob'') = Inr (example_claims ''bob'')
   \<and> example_claims ''alice'' ''uid'' \<noteq> example_claims ''bob'' ''uid''
   \<and> api_voices example_cfg (example_env 1500 (ok_response [] JNull) (Inl (OtherException [])))
        (cached_state example_catalog 1000) (Some ''token-alice'')
      = api_voices example_cfg (example_env 1500 (ok_response [] JNull) (Inl (OtherException [])))
        (cached_state example_catalog 1000) (Some ''token-bob'')
   \<and> fst (api_voices example_cfg (example_env 1500 (ok_response [] JNull) (Inl (OtherException [])))
        (cached_state example_catalog 1000) (Some ''token-bob'')) = Return example_catalog"
proof -
  let ?e = "example_env 1500 (ok_response [] JNull) (Inl (OtherException []))"
  have a: "current_user ?e (Some ''token-alice'') = Inr (example_claims ''alice'')"
    by (rule alice_verified)
  have b: "current_user ?e (Some ''token-bob'') = Inr (example_claims ''bob'')"
    by (rule bob_verified)
  have d: "example_claims ''alice'' ''uid'' \<noteq> example_claims ''bob'' ''uid''"
    by (simp add: example_claims_def)
  have r: "fst (api_voices example_cfg ?e (cached_state example_catalog 1000) (Some ''token-bob''))
       = Return example_catalog"
    by (simp add: api_voices_def b get_voices_def)
       (simp add: example_defs CACHE_DURATION_SECONDS_def)
  from catalog_identity_blind [OF a b, of example_cfg "cached_state example_catalog 1000"] a b d r
  show ?thesis by blast
qed

text \<open>
  Claim C9. The hit test is on the truth value of the stored payload. Whenever the
  stored payload is falsy, a request by a verified user calls the catalog API,
  whatever the clock and the stored timestamp say. So after a fetch that succeeded
  with a falsy value \<open>v\<close>, which is stored with the time of the fetch, the next request
  fetches again at any time, also within 3600 seconds; and a reply made without a
  call, that is from the cache, never carries a falsy payload.
\<close>

theorem falsy_payload_refetched:
  assumes "current_user e authorization = Inr user_data"
      and "current_user e' authorization' = Inr user_data'"
  shows "(\<not> truthy (data (voices_cache st))
           \<longrightarrow> snd (snd (api_voices cfg e st authorization))
                 = [HeygenGet (HEYGEN_API_URL @ ''/voices'') (HEADERS cfg)])
       \<and> (\<not> truthy (data (avatars_cache st))
           \<longrightarrow> snd (snd (api_avatars cfg e st authorization))
                 = [HeygenGet (HEYGEN_API_URL @ ''/avatars'') (HEADERS cfg)])
       \<and> (\<forall>v. fetch_json e (HEYGEN_API_URL @ ''/voices'') (HEADERS cfg) = Inr v \<and> \<not> truthy v
               \<and> snd (snd (api_voices cfg e st authorization)) \<noteq> []
           \<longrightarrow> voices_cache (fst (snd (api_voices cfg e st authorization)))
                 = \<lparr>data = v, timestamp = now e\<rparr>
               \<and> snd (snd (api_voices cfg e' (fst (snd (api_voices cfg e st authorization)))
                            authorization'))
                 = [HeygenGet (HEYGEN_API_URL @ ''/voices'') (HEADERS cfg)])
       \<and> (\<forall>v. fetch_json e (HEYGEN_API_URL @ ''/avatars'') (HEADERS cfg) = Inr v \<and> \<not> truthy v
               \<and> snd (snd (api_avatars cfg e st authorization)) \<noteq> []
           \<longrightarrow> avatars_cache (fst (snd (api_avatars cfg e st authorization)))
                 = \<lparr>data = v, timestamp = now e\<rparr>
               \<and> snd (snd (api_avatars cfg e' (fst (snd (api_avatars cfg e st authorization)))
                            authorization'))
                 = [HeygenGet (HEYGEN_API_URL @ ''/avatars'') (HEADERS cfg)])
       \<and> (\<forall>v. api_voices cfg e st authorization = (Return v, st, []) \<longrightarrow> truthy v)
       \<and> (\<forall>v. api_avatars cfg e st authorization = (Return v, st, []) \<longrightarrow> truthy v)"
  using assms
  by (auto simp add: catalog_defs Let_def split: sum.splits if_splits)

text \<open>
  Witness of C9: the catalog API answers \<^verbatim>\<open>{}\<close> at time 1000; the value is stored with
  that time, and one second later the handler calls the API again.
\<close>

theorem falsy_payload_refetched_witness:
  "voices_cache (fst (snd (api_voices example_cfg
       (example_env 1000 (ok_response ''{}'' (JObj [])) (Inl (OtherException [])))
       initial_state (Some ''token-alice''))))
     = \<lparr>data = JObj [], timestamp = 1000\<rparr>
   \<and> snd (snd (api_voices example_cfg
       (example_env 1001 (ok_response ''{}'' (JObj [])) (Inl (OtherException [])))
       (fst (snd (api_voices example_cfg
          (example_env 1000 (ok_response ''{}'' (JObj [])) (Inl (OtherException [])))
          initial_state (Some ''token-alice''))))
       (Some ''token-bob'')))
     = [HeygenGet ''https://api.heygen.com/v2/voices''
          [(''accept'', Some ''application/json''), (''x-api-key'', Some ''key-1'')]]"
proof -
  let ?e = "example_env 1000 (ok_response ''{}'' (JObj [])) (Inl (OtherException []))"
  let ?e' = "example_env 1001 (ok_response ''{}'' (JObj [])) (Inl (OtherException []))"
  have a: "current_user ?e (Some ''token-alice'') = Inr (example_claims ''alice'')"
    by (rule alice_verified)
  have b: "current_user ?e' (Some ''token-bob'') = Inr (example_claims ''bob'')"
    by (rule bob_verified)
  have absent: "\<not> truthy (data (voices_cache initial_state))"
    by (simp add: initial_state_def)
  have fetched: "fetch_json ?e (HEYGEN_API_URL @ ''/voices'') (HEADERS example_cfg) = Inr (JObj [])
      \<and> \<not> truthy (JObj [])"
    by (simp add: example_fetch_ok)
  note main = falsy_payload_refetched [OF a b, of initial_state example_cfg]
  from main absent
  have "snd (snd (api_voices example_cfg ?e initial_state (Some ''token-alice''))) \<noteq> []"
    by simp
  with main fetched
  have "voices_cache (fst (snd (api_voices example_cfg ?e initial_state (Some ''token-alice''))))
          = \<lparr>data = JObj [], timestamp = now ?e\<rparr>
      \<and> snd (snd (api_voices example_cfg ?e'
            (fst (snd (api_voices example_cfg ?e initial_state (Some ''token-alice''))))
            (Some ''token-bob'')))
          = [HeygenGet (HEYGEN_API_URL @ ''/voices'') (HEADERS example_cfg)]"
    by blast
  then show ?thesis
    by (simp add: example_env_def example_cfg_def constant_defs)
qed

text \<open>
  Claim C10. On a cache hit (a truthy payload, less than 3600 seconds old) a catalog
  request leaves the whole state as it was, the timestamp included. GET /api/voices
  never changes the avatars entry, nor GET /api/avatars the voices entry; neither
  writes a file; /api/me and /api/n8n leave the whole state as it was, and
  /api/upload-image leaves both cache entries as they were.
\<close>

theorem cache_frame:
  "(truthy (data (voices_cache st)) \<and> now e - timestamp (voices_cache st) < 3600
      \<longrightarrow> fst (snd (api_voices cfg e st authorization)) = st)
   \<and> (truthy (data (avatars_cache st)) \<and> now e - timestamp (avatars_cache st) < 3600
      \<longrightarrow> fst (snd (api_avatars cfg e st authorization)) = st)
   \<and> avatars_cache (fst (snd (api_voices cfg e st authorization))) = avatars_cache st
   \<and> files (fst (snd (api_voices cfg e st authorization))) = files st
   \<and> voices_cache (fst (snd (api_avatars cfg e st authorization))) = voices_cache st
   \<and> files (fst (snd (api_avatars cfg e st authorization))) = files st
   \<and> fst (snd (api_me e st authorization)) = st
   \<and> fst (snd (api_n8n e st authorization raw)) = st
   \<and> voices_cache (fst (snd (api_upload_image cfg e st req))) = voices_cache st
   \<and> avatars_cache (fst (snd (api_upload_image cfg e st req))) = avatars_cache st"
  by (auto simp add: catalog_defs api_me_def get_my_info_def api_n8n_def proxy_to_n8n_def
        api_upload_image_def upload_image_from_n8n_def CACHE_DURATION_SECONDS_def Let_def
        split: sum.splits option.splits exn.splits)

text \<open>
  Witness of C10: a hit at time 2000 on a catalog fetched at time 1000 leaves the
  timestamp at 1000; a refresh of the avatars leaves the voices entry as it was.
\<close>

theorem cache_frame_witness:
  "timestamp (voices_cache (fst (snd (api_voices example_cfg
       (example_env 2000 (ok_response [] (JObj [(''data'', JArr [])])) (Inl (OtherException [])))
       (cached_state example_catalog 1000) (Some ''token-alice''))))) = 1000
   \<and> voices_cache (fst (snd (api_avatars example_cfg
       (example_env 2000 (ok_response [] (JObj [(''data'', JArr [])])) (Inl (OtherException [])))
       (cached_state example_catalog 1000) (Some ''token-alice''))))
     = \<lparr>data = example_catalog, timestamp = 1000\<rparr>
   \<and> avatars_cache (fst (snd (api_avatars example_cfg
       (example_env 2000 (ok_response [] (JObj [(''data'', JArr [])])) (Inl (OtherException [])))
       (cached_state example_catalog 1000) (Some ''token-alice''))))
     = \<lparr>data = JObj [(''data'', JArr [])], timestamp = 2000\<rparr>"
proof -
  let ?e = "example_env 2000 (ok_response [] (JObj [(''data'', JArr [])])) (Inl (OtherException []))"
  let ?st = "cached_state example_catalog 1000"
  have fresh: "truthy (data (voices_cache ?st)) \<and> now ?e - timestamp (voices_cache ?st) < 3600"
    by (simp add: example_defs)
  from cache_frame [of ?st ?e example_cfg "Some ''token-alice''"] fresh
  have hit: "fst (snd (api_voices example_cfg ?e ?st (Some ''token-alice''))) = ?st"
    and other: "voices_cache (fst (snd (api_avatars example_cfg ?e ?st (Some ''token-alice''))))
             = voices_cache ?st"
    by blast+
  have av: "avatars_cache (fst (snd (api_avatars example_cfg ?e ?st (Some ''token-alice''))))
     = \<lparr>data = JObj [(''data'', JArr [])], timestamp = 2000\<rparr>"
    by (simp add: api_avatars_def alice_verified get_avatars_def example_fetch_ok
          cached_state_def initial_state_def)
       (simp add: example_env_def)
  show ?thesis
    by (simp add: hit other av) (simp add: cached_state_def initial_state_def)
qed

end
